theory Spec2Isabelle
  imports Main "HOL-Library.Sublist"
begin

section \<open>Python values shared by the modules\<close>

text \<open>
  Exceptions are values. The code tells \<open>asyncio.TimeoutError\<close> apart from every other
  \<open>Exception\<close>, raises \<open>ValueError\<close> for configuration problems, and subscripts a
  dictionary (\<open>KeyError\<close>) and calls \<open>len\<close> (\<open>TypeError\<close>); \<open>Exception\<close> stands for
  any other exception class, with the text \<open>str(e)\<close> gives. Exceptions outside the
  \<open>Exception\<close> hierarchy (task cancellation, interrupts) are not modelled.
\<close>

datatype py_exception =
    ValueError string
  | KeyError string
  | TypeError string
  | TimeoutError string
  | Exception string

text \<open>\<open>str(e)\<close>: the message, except that a \<open>KeyError\<close> prints the repr of its key
  (the keys used here are plain identifiers, whose repr is the key in single quotes).\<close>

fun str_exc :: "py_exception \<Rightarrow> string" where
  "str_exc (ValueError m) = m"
| "str_exc (KeyError k) = [CHR 0x27] @ k @ [CHR 0x27]"
| "str_exc (TypeError m) = m"
| "str_exc (TimeoutError m) = m"
| "str_exc (Exception m) = m"

text \<open>Decimal rendering of a non-negative integer inside an f-string.\<close>

definition digit_char :: "nat \<Rightarrow> char" where
  "digit_char d = ''0123456789'' ! d"

function str_nat :: "nat \<Rightarrow> string" where
  "str_nat n = (if n < 10 then [digit_char n] else str_nat (n div 10) @ [digit_char (n mod 10)])"
  by pat_completeness auto
termination
  by (relation "measure id") auto

declare str_nat.simps [simp del]

text \<open>Truthiness of an optional string: \<open>None\<close> and the empty string are false.\<close>

fun truthy :: "string option \<Rightarrow> bool" where
  "truthy None = False"
| "truthy (Some s) = (s \<noteq> [])"

section \<open>config.py\<close>

text \<open>Temperatures are floats that the program only passes on; their type is the
  parameter \<open>'f\<close>.\<close>

record 'f model_config =
  deployment_name :: string
  temperature :: 'f
  role :: string
  display_name :: string

record 'f council_config =
  project_endpoint :: string
  api_key :: "string option"
  member_a :: "'f model_config"
  member_b :: "'f model_config"
  chair :: "'f model_config"
  timeout :: int

text \<open>\<open>os.getenv(name)\<close> and \<open>os.getenv(name, default)\<close> on the process environment (after
  \<open>load_dotenv\<close>).\<close>

definition getenv :: "(string \<rightharpoonup> string) \<Rightarrow> string \<Rightarrow> string option" where
  "getenv environ name = environ name"

definition getenv_default :: "(string \<rightharpoonup> string) \<Rightarrow> string \<Rightarrow> string \<Rightarrow> string" where
  "getenv_default environ name dflt = (case environ name of None \<Rightarrow> dflt | Some v \<Rightarrow> v)"

text \<open>
  \<open>CouncilConfig.from_env\<close>. Python's \<open>float()\<close> and \<open>int()\<close> on a string are the
  parameters \<open>py_float\<close> and \<open>py_int\<close>; each returns the number or the exception it raises.
\<close>

definition from_env ::
  "(string \<Rightarrow> py_exception + 'f) \<Rightarrow> (string \<Rightarrow> py_exception + int) \<Rightarrow> (string \<rightharpoonup> string)
     \<Rightarrow> py_exception + 'f council_config" where
  "from_env py_float py_int environ =
     (let project_endpoint_v = getenv environ ''AZURE_AI_PROJECT_ENDPOINT'' in
      if \<not> truthy project_endpoint_v
      then Inl (ValueError (''AZURE_AI_PROJECT_ENDPOINT not found. '' @
                  ''Please copy .env.template to .env and configure your Azure settings.''))
      else
        let api_key_v = getenv environ ''AZURE_AI_API_KEY'';
            model_gpt41 = getenv_default environ ''MODEL_DEPLOYMENT_GPT41'' ''gpt-4.1'';
            model_deepseek = getenv_default environ ''MODEL_DEPLOYMENT_DEEPSEEK'' ''DeepSeek-V3.1'';
            model_grok = getenv_default environ ''MODEL_DEPLOYMENT_GROK'' ''grok-3''
        in case py_float (getenv_default environ ''TEMPERATURE_COUNCIL_MEMBERS'' ''0.7'') of
             Inl e \<Rightarrow> Inl e
           | Inr temp_council \<Rightarrow>
        (case py_float (getenv_default environ ''TEMPERATURE_CHAIR'' ''0.3'') of
             Inl e \<Rightarrow> Inl e
           | Inr temp_chair \<Rightarrow>
        (case py_int (getenv_default environ ''AGENT_TIMEOUT'' ''60'') of
             Inl e \<Rightarrow> Inl e
           | Inr timeout_v \<Rightarrow>
             Inr \<lparr> project_endpoint = the project_endpoint_v,
                   api_key = (if truthy api_key_v then api_key_v else None),
                   member_a = \<lparr> deployment_name = model_gpt41, temperature = temp_council,
                                role = ''analytical'',
                                display_name = ''Council Member A (Analytical - GPT-4.1)'' \<rparr>,
                   member_b = \<lparr> deployment_name = model_deepseek, temperature = temp_council,
                                role = ''critical'',
                                display_name = ''Council Member B (Critical - DeepSeek-V3.1)'' \<rparr>,
                   chair = \<lparr> deployment_name = model_grok, temperature = temp_chair,
                             role = ''chair'', display_name = ''Chair (Grok-3)'' \<rparr>,
                   timeout = timeout_v \<rparr>)))"

text \<open>\<open>CouncilConfig.validate\<close>: the first failing check raises.\<close>

definition validate :: "'f council_config \<Rightarrow> py_exception + unit" where
  "validate c =
     (if project_endpoint c = [] then Inl (ValueError ''Azure AI Project Endpoint is required'')
      else if deployment_name (member_a c) = [] then Inl (ValueError ''MODEL_DEPLOYMENT_GPT41 is required'')
      else if deployment_name (member_b c) = [] then Inl (ValueError ''MODEL_DEPLOYMENT_DEEPSEEK is required'')
      else if deployment_name (chair c) = [] then Inl (ValueError ''MODEL_DEPLOYMENT_GROK is required'')
      else if timeout c \<le> 0 then Inl (ValueError ''AGENT_TIMEOUT must be positive'')
      else Inr ())"

text \<open>
  \<open>get_config\<close> with the module-level singleton \<open>_config_instance\<close> passed in and out.
  The instance is assigned before \<open>validate\<close> runs, so it stays set when \<open>validate\<close> raises.
\<close>

definition get_config ::
  "(string \<Rightarrow> py_exception + 'f) \<Rightarrow> (string \<Rightarrow> py_exception + int) \<Rightarrow> (string \<rightharpoonup> string)
     \<Rightarrow> 'f council_config option
     \<Rightarrow> (py_exception + 'f council_config) \<times> 'f council_config option" where
  "get_config py_float py_int environ config_instance =
     (case config_instance of
        Some c \<Rightarrow> (Inr c, config_instance)
      | None \<Rightarrow>
          (case from_env py_float py_int environ of
             Inl e \<Rightarrow> (Inl e, None)
           | Inr c \<Rightarrow>
               (case validate c of
                  Inl e \<Rightarrow> (Inl e, Some c)
                | Inr _ \<Rightarrow> (Inr c, Some c))))"

section \<open>prompts.py\<close>

definition MEMBER_A_PROMPT :: string where
  "MEMBER_A_PROMPT = ''You are Council Member A, an analytical AI expert who provides thorough, \<newline>data-driven analysis. Your role is to:\<newline>\<newline>1. In Round 1: Provide your independent analysis of the query with clear reasoning\<newline>2. In Round 2: Review Council Member B's perspective and either:\<newline>   - Challenge their assumptions with evidence\<newline>   - Agree and strengthen their points\<newline>   - Offer alternative viewpoints\<newline>\<newline>Be direct, analytical, and evidence-based in your responses.''"

definition MEMBER_B_PROMPT :: string where
  "MEMBER_B_PROMPT = ''You are Council Member B, a critical thinking AI expert who questions \<newline>assumptions and explores edge cases. Your role is to:\<newline>\<newline>1. In Round 1: Provide your independent analysis focusing on risks, limitations, and alternatives\<newline>2. In Round 2: Review Council Member A's perspective and either:\<newline>   - Point out overlooked considerations or flaws\<newline>   - Acknowledge strong points\<newline>   - Present contrarian views with reasoning\<newline>\<newline>Be skeptical, thorough, and constructively critical.''"

definition CHAIR_PROMPT :: string where
  "CHAIR_PROMPT = ''You are the Chair, the final decision maker who synthesizes the council's debate.\<newline>\<newline>Your role is to review the ENTIRE debate thread and produce a structured final verdict with:\<newline>\<newline>## Areas of Complete Consensus\<newline>List all points where both Council Members agreed, either initially or after debate.\<newline>\<newline>## Key Debates  \<newline>Highlight areas where the members disagreed. For each:\<newline>- State the disagreement clearly\<newline>- Summarize Member A's position and reasoning\<newline>- Summarize Member B's position and reasoning\<newline>\<newline>## The Verdict\<newline>Based on the complete debate, provide your final decision/recommendation. Explain:\<newline>- Which perspectives you're adopting and why\<newline>- How you're resolving any disagreements\<newline>- Your conclusive answer to the original query\<newline>\<newline>Be objective, balanced, and make clear final judgments.''"

definition get_member_a_prompt :: string where
  "get_member_a_prompt = MEMBER_A_PROMPT"

definition get_member_b_prompt :: string where
  "get_member_b_prompt = MEMBER_B_PROMPT"

definition get_chair_prompt :: string where
  "get_chair_prompt = CHAIR_PROMPT"

definition get_round2_prompt_for_member_a :: "string \<Rightarrow> string \<Rightarrow> string" where
  "get_round2_prompt_for_member_a user_query member_b_response =
     ''Original Query: '' @ user_query @
     ''\<newline>\<newline>Council Member B's Analysis:\<newline>'' @ member_b_response @
     ''\<newline>\<newline>Now provide your critique, counterarguments, or supporting arguments to Member B's analysis.''"

definition get_round2_prompt_for_member_b :: "string \<Rightarrow> string \<Rightarrow> string \<Rightarrow> string" where
  "get_round2_prompt_for_member_b user_query member_a_initial member_a_critique =
     ''Original Query: '' @ user_query @
     ''\<newline>\<newline>Council Member A's Initial Analysis:\<newline>'' @ member_a_initial @
     ''\<newline>\<newline>Council Member A's Critique of Your Analysis:\<newline>'' @ member_a_critique @
     ''\<newline>\<newline>Now respond: critique Member A's points and defend or refine your position.''"

definition get_chair_synthesis_prompt ::
  "string \<Rightarrow> string \<Rightarrow> string \<Rightarrow> string \<Rightarrow> string \<Rightarrow> string" where
  "get_chair_synthesis_prompt user_query round1_member_a round1_member_b round2_member_a round2_member_b =
     ''Original Query: '' @ user_query @
     ''\<newline>\<newline>=== FULL DEBATE TRANSCRIPT ===\<newline>\<newline>ROUND 1 - Council Member A (Analytical):\<newline>'' @ round1_member_a @
     ''\<newline>\<newline>ROUND 1 - Council Member B (Critical):\<newline>'' @ round1_member_b @
     ''\<newline>\<newline>ROUND 2 - Member A's Critique:\<newline>'' @ round2_member_a @
     ''\<newline>\<newline>ROUND 2 - Member B's Response:\<newline>'' @ round2_member_b @
     ''\<newline>\<newline>=== END TRANSCRIPT ===\<newline>\<newline>Now provide your structured final verdict following the format specified in your instructions.''"

section \<open>orchestrator.py\<close>

subsection \<open>The orchestrator object\<close>

record 'f debate_orchestrator =
  config :: "'f council_config"

text \<open>
  \<open>DebateOrchestrator.__init__\<close>: \<open>config or get_config()\<close> takes the argument unless it
  is \<open>None\<close> (a dataclass instance is always true), then the key is checked.
\<close>

definition DebateOrchestrator_init ::
  "(string \<Rightarrow> py_exception + 'f) \<Rightarrow> (string \<Rightarrow> py_exception + int) \<Rightarrow> (string \<rightharpoonup> string)
     \<Rightarrow> 'f council_config option \<Rightarrow> 'f council_config option
     \<Rightarrow> (py_exception + 'f debate_orchestrator) \<times> 'f council_config option" where
  "DebateOrchestrator_init py_float py_int environ config_arg config_instance =
     (case (case config_arg of
              Some c \<Rightarrow> (Inr c, config_instance)
            | None \<Rightarrow> get_config py_float py_int environ config_instance) of
        (Inl e, inst) \<Rightarrow> (Inl e, inst)
      | (Inr c, inst) \<Rightarrow>
          if \<not> truthy (api_key c)
          then (Inl (ValueError (''AZURE_AI_API_KEY is required. '' @
                       ''Please add your Azure AI Foundry API key to the .env file.'')), inst)
          else (Inr \<lparr> config = c \<rparr>, inst))"

subsection \<open>One HTTP request and its possible results\<close>

text \<open>The JSON payload; each message is the pair of its \<open>role\<close> and its \<open>content\<close>.\<close>

record 'f payload =
  messages :: "(string \<times> string) list"
  payload_temperature :: 'f
  max_tokens :: nat

text \<open>The arguments of \<open>session.post\<close>: URL, JSON payload, headers and total timeout.\<close>

record 'f http_post =
  url :: string
  json :: "'f payload"
  headers :: "(string \<times> string option) list"
  timeout_total :: int

text \<open>
  What the code reads from a response: its status, the value of
  \<open>(await response.json())["choices"][0]["message"]["content"]\<close> (the text, or the
  exception that decoding or subscripting the body raises), and \<open>await response.text()\<close>.
\<close>

record response =
  status :: nat
  json_content :: "py_exception + string"
  body_text :: "py_exception + string"

datatype attempt_result = PostRaised py_exception | Responded response

text \<open>What a call does to the outside world: it posts a request and it sleeps.\<close>

datatype 'f event = Post "'f http_post" | Sleep nat

text \<open>The body of the \<open>try\<close> block for one attempt: the returned text or the raised
  exception.\<close>

definition try_post :: "attempt_result \<Rightarrow> py_exception + string" where
  "try_post r =
     (case r of
        PostRaised e \<Rightarrow> Inl e
      | Responded resp \<Rightarrow>
          if status resp = 200 then json_content resp
          else (case body_text resp of
                  Inl e \<Rightarrow> Inl e
                | Inr error_text \<Rightarrow>
                    Inl (Exception (''API returned status '' @ str_nat (status resp) @ '': '' @ error_text))))"

subsection \<open>The model invoker\<close>

text \<open>
  The loop \<open>for attempt in range(max_retries)\<close> of \<open>_call_model\<close>, from \<open>attempt\<close> on. The
  session is the endpoint seen from this call: the result of posting the request at a given
  attempt. The loop returns what the call returns or raises, and the events in order. When
  the range is exhausted without a return the Python function returns \<open>None\<close>.
\<close>

function call_model_loop ::
  "('f http_post \<Rightarrow> nat \<Rightarrow> attempt_result) \<Rightarrow> 'f http_post \<Rightarrow> nat \<Rightarrow> nat
     \<Rightarrow> (py_exception + string option) \<times> 'f event list" where
  "call_model_loop session req max_retries attempt =
     (if attempt < max_retries then
        (case try_post (session req attempt) of
           Inr content \<Rightarrow> (Inr (Some content), [Post req])
         | Inl (TimeoutError m) \<Rightarrow>
             if attempt < max_retries - 1 then
               (let wait_time = 2 ^ attempt;
                    (r, evs) = call_model_loop session req max_retries (attempt + 1)
                in (r, Post req # Sleep wait_time # evs))
             else
               (Inl (Exception (''Model timed out after '' @ str_nat max_retries @ '' attempts'')),
                [Post req])
         | Inl e \<Rightarrow>
             if attempt < max_retries - 1 then
               (let wait_time = 2 ^ attempt;
                    (r, evs) = call_model_loop session req max_retries (attempt + 1)
                in (r, Post req # Sleep wait_time # evs))
             else
               (Inl (Exception (''Model failed after '' @ str_nat max_retries @ '' attempts: '' @ str_exc e)),
                [Post req]))
      else (Inr None, []))"
  by pat_completeness auto
termination
  by (relation "measure (\<lambda>(session, req, max_retries, attempt). max_retries - attempt)") auto

declare call_model_loop.simps [simp del]

text \<open>The request \<open>_call_model\<close> builds once, before the loop.\<close>

definition build_request ::
  "'f debate_orchestrator \<Rightarrow> string \<Rightarrow> string \<Rightarrow> 'f \<Rightarrow> string \<Rightarrow> 'f http_post" where
  "build_request self system_prompt user_message temp model_name =
     \<lparr> url = project_endpoint (config self) @ ''/openai/deployments/'' @ model_name @
             ''/chat/completions?api-version=2024-10-21'',
       json = \<lparr> messages = [(''system'', system_prompt), (''user'', user_message)],
                payload_temperature = temp,
                max_tokens = 4000 \<rparr>,
       headers = [(''Content-Type'', Some ''application/json''),
                  (''api-key'', api_key (config self))],
       timeout_total = timeout (config self) \<rparr>"

definition call_model ::
  "'f debate_orchestrator \<Rightarrow> ('f http_post \<Rightarrow> nat \<Rightarrow> attempt_result) \<Rightarrow> string \<Rightarrow> string \<Rightarrow> 'f
     \<Rightarrow> string \<Rightarrow> nat \<Rightarrow> (py_exception + string option) \<times> 'f event list" where
  "call_model self session system_prompt user_message temp model_name max_retries =
     call_model_loop session (build_request self system_prompt user_message temp model_name)
       max_retries 0"

subsection \<open>The debate\<close>

text \<open>The five call sites of \<open>conduct_debate\<close>, in program order.\<close>

datatype stage = Round1_A | Round1_B | Round2_A | Round2_B | Round3_Chair

text \<open>
  The model endpoint is an oracle: for a call site, a request and an attempt number it gives
  the result of that attempt. Nothing is assumed about it.
\<close>

type_synonym 'f endpoint = "stage \<Rightarrow> 'f http_post \<Rightarrow> nat \<Rightarrow> attempt_result"

text \<open>One invocation of \<open>_call_model\<close> as the debate sees it: where it was made, what it did
  and how it ended.\<close>

record 'f call_record =
  call_stage :: stage
  call_events :: "'f event list"
  call_outcome :: "py_exception + string option"

text \<open>\<open>self._call_model(session, ...)\<close> at a call site; \<open>max_retries\<close> keeps its default 3.\<close>

definition call_at ::
  "'f debate_orchestrator \<Rightarrow> 'f endpoint \<Rightarrow> stage \<Rightarrow> string \<Rightarrow> string \<Rightarrow> 'f \<Rightarrow> string
     \<Rightarrow> (py_exception + string option) \<times> 'f call_record" where
  "call_at self endpoint st system_prompt user_message temp model_name =
     (let (r, evs) = call_model self (endpoint st) system_prompt user_message temp model_name 3
      in (r, \<lparr> call_stage = st, call_events = evs, call_outcome = r \<rparr>))"

text \<open>\<open>len(x)\<close> inside the progress messages: a string has a length, \<open>None\<close> raises.\<close>

definition py_len :: "string option \<Rightarrow> py_exception + nat" where
  "py_len v =
     (case v of
        None \<Rightarrow> Inl (TypeError ''object of type 'NoneType' has no len()'')
      | Some s \<Rightarrow> Inr (length s))"

definition initial_responses :: "string \<rightharpoonup> string" where
  "initial_responses =
     [''round1_member_a'' \<mapsto> [], ''round1_member_b'' \<mapsto> [], ''round2_member_a'' \<mapsto> [],
      ''round2_member_b'' \<mapsto> [], ''round3_chair'' \<mapsto> []]"

text \<open>
  The three rounds are the three commented sections of \<open>conduct_debate\<close>. Each returns the
  dictionary or the exception that leaves the \<open>try\<close> block, and the calls made so far. Every
  read of \<open>responses[k]\<close> in the source follows the assignment of that key, so the model
  reads the assigned text. Console output is left out, except that evaluating \<open>len\<close> for
  it can raise.
\<close>

definition debate_round3 ::
  "'f debate_orchestrator \<Rightarrow> 'f endpoint \<Rightarrow> string \<Rightarrow> (string \<rightharpoonup> string)
     \<Rightarrow> string \<Rightarrow> string \<Rightarrow> string \<Rightarrow> string \<Rightarrow> 'f call_record list
     \<Rightarrow> (py_exception + (string \<rightharpoonup> string)) \<times> 'f call_record list" where
  "debate_round3 self endpoint user_query responses round1_a round1_b round2_a round2_b calls =
     (let chair_prompt = get_chair_synthesis_prompt user_query round1_a round1_b round2_a round2_b;
          (result_c, call_c) =
             call_at self endpoint Round3_Chair get_chair_prompt chair_prompt
               (temperature (chair (config self))) (deployment_name (chair (config self)));
          calls3 = calls @ [call_c]
      in case result_c of
           Inl e \<Rightarrow> (Inl e, calls3)
         | Inr value_c \<Rightarrow>
             (case py_len value_c of
                Inl e \<Rightarrow> (Inl e, calls3)
              | Inr _ \<Rightarrow> (Inr (responses(''round3_chair'' \<mapsto> the value_c)), calls3)))"

definition debate_round2 ::
  "'f debate_orchestrator \<Rightarrow> 'f endpoint \<Rightarrow> string \<Rightarrow> (string \<rightharpoonup> string)
     \<Rightarrow> string \<Rightarrow> string \<Rightarrow> 'f call_record list
     \<Rightarrow> (py_exception + (string \<rightharpoonup> string)) \<times> 'f call_record list" where
  "debate_round2 self endpoint user_query responses round1_a round1_b calls =
     (let critique_prompt_a = get_round2_prompt_for_member_a user_query round1_b;
          (result_a, call_a) =
             call_at self endpoint Round2_A get_member_a_prompt critique_prompt_a
               (temperature (member_a (config self))) (deployment_name (member_a (config self)));
          calls_a = calls @ [call_a]
      in case result_a of
           Inl e \<Rightarrow> (Inl e, calls_a)
         | Inr value_a \<Rightarrow>
             (case py_len value_a of
                Inl e \<Rightarrow> (Inl e, calls_a)
              | Inr _ \<Rightarrow>
                  (let round2_a = the value_a;
                       responses_a = responses(''round2_member_a'' \<mapsto> round2_a);
                       critique_prompt_b = get_round2_prompt_for_member_b user_query round1_a round2_a;
                       (result_b, call_b) =
                          call_at self endpoint Round2_B get_member_b_prompt critique_prompt_b
                            (temperature (member_b (config self)))
                            (deployment_name (member_b (config self)));
                       calls_b = calls_a @ [call_b]
                   in case result_b of
                        Inl e \<Rightarrow> (Inl e, calls_b)
                      | Inr value_b \<Rightarrow>
                          (case py_len value_b of
                             Inl e \<Rightarrow> (Inl e, calls_b)
                           | Inr _ \<Rightarrow>
                               debate_round3 self endpoint user_query
                                 (responses_a(''round2_member_b'' \<mapsto> the value_b))
                                 round1_a round1_b round2_a (the value_b) calls_b))))"

text \<open>
  Round 1 is \<open>asyncio.gather(..., return_exceptions=True)\<close>: both calls run to their end
  whatever the other does, and each result is the returned value or the raised exception.
  The two calls overlap in time; the list of calls has them in argument order. Then the
  results are inspected, member A's first.
\<close>

definition debate_round1 ::
  "'f debate_orchestrator \<Rightarrow> 'f endpoint \<Rightarrow> string
     \<Rightarrow> (py_exception + (string \<rightharpoonup> string)) \<times> 'f call_record list" where
  "debate_round1 self endpoint user_query =
     (let responses = initial_responses;
          (result_a, call_a) =
             call_at self endpoint Round1_A get_member_a_prompt user_query
               (temperature (member_a (config self))) (deployment_name (member_a (config self)));
          (result_b, call_b) =
             call_at self endpoint Round1_B get_member_b_prompt user_query
               (temperature (member_b (config self))) (deployment_name (member_b (config self)));
          calls = [call_a, call_b]
      in case result_a of
           Inl e \<Rightarrow> (Inl e, calls)
         | Inr value_a \<Rightarrow>
             (case result_b of
                Inl e \<Rightarrow> (Inl e, calls)
              | Inr value_b \<Rightarrow>
                  (case py_len value_a of
                     Inl e \<Rightarrow> (Inl e, calls)
                   | Inr _ \<Rightarrow>
                       (case py_len value_b of
                          Inl e \<Rightarrow> (Inl e, calls)
                        | Inr _ \<Rightarrow>
                            debate_round2 self endpoint user_query
                              ((responses(''round1_member_a'' \<mapsto> the value_a))
                                 (''round1_member_b'' \<mapsto> the value_b))
                              (the value_a) (the value_b) calls))))"

text \<open>\<open>conduct_debate\<close>: the \<open>try\<close> block, and the handler that wraps whatever it raised.\<close>

definition conduct_debate ::
  "'f debate_orchestrator \<Rightarrow> 'f endpoint \<Rightarrow> string
     \<Rightarrow> (py_exception + (string \<rightharpoonup> string)) \<times> 'f call_record list" where
  "conduct_debate self endpoint user_query =
     (case debate_round1 self endpoint user_query of
        (Inl e, calls) \<Rightarrow> (Inl (Exception (''Debate execution failed: '' @ str_exc e)), calls)
      | (Inr responses, calls) \<Rightarrow> (Inr responses, calls))"

subsection \<open>The output formatter\<close>

text \<open>\<open>responses[key]\<close> on a dictionary.\<close>

definition subscript :: "(string \<rightharpoonup> string) \<Rightarrow> string \<Rightarrow> py_exception + string" where
  "subscript d k = (case d k of None \<Rightarrow> Inl (KeyError k) | Some v \<Rightarrow> Inr v)"

text \<open>
  \<open>format_debate_output\<close>. The f-string evaluates its fields from left to right, so the
  first missing key raises. The configuration singleton is passed in and out as in
  \<open>get_config\<close>.
\<close>

definition format_debate_output ::
  "(string \<Rightarrow> py_exception + 'f) \<Rightarrow> (string \<Rightarrow> py_exception + int) \<Rightarrow> (string \<rightharpoonup> string)
     \<Rightarrow> (string \<rightharpoonup> string) \<Rightarrow> 'f council_config option \<Rightarrow> 'f council_config option
     \<Rightarrow> (py_exception + string) \<times> 'f council_config option" where
  "format_debate_output py_float py_int environ responses config_arg config_instance =
     (case (case config_arg of
              Some c \<Rightarrow> (Inr c, config_instance)
            | None \<Rightarrow> get_config py_float py_int environ config_instance) of
        (Inl e, inst) \<Rightarrow> (Inl e, inst)
      | (Inr cfg, inst) \<Rightarrow>
          (case subscript responses ''round1_member_a'' of Inl e \<Rightarrow> (Inl e, inst) | Inr r1a \<Rightarrow>
          (case subscript responses ''round1_member_b'' of Inl e \<Rightarrow> (Inl e, inst) | Inr r1b \<Rightarrow>
          (case subscript responses ''round2_member_a'' of Inl e \<Rightarrow> (Inl e, inst) | Inr r2a \<Rightarrow>
          (case subscript responses ''round2_member_b'' of Inl e \<Rightarrow> (Inl e, inst) | Inr r2b \<Rightarrow>
          (case subscript responses ''round3_chair'' of Inl e \<Rightarrow> (Inl e, inst) | Inr r3 \<Rightarrow>
             (Inr (''#  LLM Council Debate\<newline>\<newline>##  Round 1: Independent Analysis\<newline>\<newline>###  '' @
                   display_name (member_a cfg) @ ''\<newline>'' @ r1a @
                   ''\<newline>\<newline>---\<newline>\<newline>###  '' @
                   display_name (member_b cfg) @ ''\<newline>'' @ r1b @
                   ''\<newline>\<newline>---\<newline>\<newline>##  Round 2: Chain-of-Debate\<newline>\<newline>###  Member A's Critique\<newline>'' @ r2a @
                   ''\<newline>\<newline>---\<newline>\<newline>###  Member B's Response\<newline>'' @ r2b @
                   ''\<newline>\<newline>---\<newline>\<newline>##  Round 3: Chair's Final Verdict ('' @
                   deployment_name (chair cfg) @ '')\<newline>\<newline>'' @ r3 @ ''\<newline>''),
              inst)))))))"

section \<open>Vocabulary of the properties\<close>

text \<open>
  The texts a call site reads when it builds its message, in the order of the arguments
  of its prompt builder (the query apart): the responses that must exist before the call.
\<close>

fun depends_on :: "stage \<Rightarrow> stage list" where
  "depends_on Round1_A = []"
| "depends_on Round1_B = []"
| "depends_on Round2_A = [Round1_B]"
| "depends_on Round2_B = [Round1_A, Round2_A]"
| "depends_on Round3_Chair = [Round1_A, Round1_B, Round2_A, Round2_B]"

text \<open>A call succeeded when it returned a text, and failed when it raised.\<close>

definition succeeded :: "'f call_record \<Rightarrow> bool" where
  "succeeded c = (case call_outcome c of Inr (Some t) \<Rightarrow> True | _ \<Rightarrow> False)"

definition failed :: "'f call_record \<Rightarrow> bool" where
  "failed c = (case call_outcome c of Inl e \<Rightarrow> True | _ \<Rightarrow> False)"

text \<open>The requests a call posted, in order.\<close>

fun posted :: "'f event list \<Rightarrow> 'f http_post list" where
  "posted [] = []"
| "posted (Post r # evs) = r # posted evs"
| "posted (Sleep n # evs) = posted evs"

text \<open>The request a call site posts for a given user message: its participant's system
  prompt, temperature and deployment, as written at the call site.\<close>

fun stage_request :: "'f debate_orchestrator \<Rightarrow> stage \<Rightarrow> string \<Rightarrow> 'f http_post" where
  "stage_request self Round1_A um =
     build_request self get_member_a_prompt um
       (temperature (member_a (config self))) (deployment_name (member_a (config self)))"
| "stage_request self Round1_B um =
     build_request self get_member_b_prompt um
       (temperature (member_b (config self))) (deployment_name (member_b (config self)))"
| "stage_request self Round2_A um =
     build_request self get_member_a_prompt um
       (temperature (member_a (config self))) (deployment_name (member_a (config self)))"
| "stage_request self Round2_B um =
     build_request self get_member_b_prompt um
       (temperature (member_b (config self))) (deployment_name (member_b (config self)))"
| "stage_request self Round3_Chair um =
     build_request self get_chair_prompt um
       (temperature (chair (config self))) (deployment_name (chair (config self)))"

text \<open>A call record belongs to a call site and message when it carries that stage and
  every request it posted is that request (and it posted at least one).\<close>

definition made :: "'f debate_orchestrator \<Rightarrow> stage \<Rightarrow> string \<Rightarrow> 'f call_record \<Rightarrow> bool" where
  "made self st um c =
     (call_stage c = st \<and> set (posted (call_events c)) = {stage_request self st um})"

text \<open>The exception the handler of \<open>conduct_debate\<close> raises for a caught one.\<close>

definition wrap :: "py_exception \<Rightarrow> py_exception" where
  "wrap e = Exception (''Debate execution failed: '' @ str_exc e)"

section \<open>Concrete configurations, sessions and endpoints\<close>

text \<open>A configuration as \<open>from_env\<close> builds it from the defaults, temperatures as written
  in the environment.\<close>

definition example_config :: "string council_config" where
  "example_config =
     \<lparr> project_endpoint = ''https://council.example'',
       api_key = Some ''secret-key'',
       member_a = \<lparr> deployment_name = ''gpt-4.1'', temperature = ''0.7'', role = ''analytical'',
                    display_name = ''Council Member A (Analytical - GPT-4.1)'' \<rparr>,
       member_b = \<lparr> deployment_name = ''DeepSeek-V3.1'', temperature = ''0.7'', role = ''critical'',
                    display_name = ''Council Member B (Critical - DeepSeek-V3.1)'' \<rparr>,
       chair = \<lparr> deployment_name = ''grok-3'', temperature = ''0.3'', role = ''chair'',
                 display_name = ''Chair (Grok-3)'' \<rparr>,
       timeout = 60 \<rparr>"

definition example_orchestrator :: "string debate_orchestrator" where
  "example_orchestrator = \<lparr> config = example_config \<rparr>"

text \<open>A status-200 response whose body carries the text.\<close>

definition reply :: "string \<Rightarrow> attempt_result" where
  "reply t = Responded \<lparr> status = 200, json_content = Inr t, body_text = Inr [] \<rparr>"

text \<open>A status-200 response whose JSON has no \<open>choices\<close> field.\<close>

definition reply_without_choices :: attempt_result where
  "reply_without_choices =
     Responded \<lparr> status = 200, json_content = Inl (KeyError ''choices''), body_text = Inr ''{}'' \<rparr>"

text \<open>The endpoint of the end-to-end scenario: fixed answers at every call site.\<close>

fun scripted_answer :: "stage \<Rightarrow> string" where
  "scripted_answer Round1_A = ''A1''"
| "scripted_answer Round1_B = ''B1''"
| "scripted_answer Round2_A = ''A2''"
| "scripted_answer Round2_B = ''B2''"
| "scripted_answer Round3_Chair = ''C1''"

definition scripted_endpoint :: "string endpoint" where
  "scripted_endpoint st req k = reply (scripted_answer st)"

text \<open>The same endpoint with every attempt of one call site raising a given exception.\<close>

definition down_at :: "stage \<Rightarrow> py_exception \<Rightarrow> string endpoint" where
  "down_at s e st req k = (if st = s then PostRaised e else scripted_endpoint st req k)"

text \<open>Both round-1 call sites down, each with its own error.\<close>

definition round1_down :: "string endpoint" where
  "round1_down st req k =
     (if st = Round1_A then PostRaised (Exception ''member A unreachable'')
      else if st = Round1_B then PostRaised (Exception ''member B unreachable'')
      else scripted_endpoint st req k)"

text \<open>Sessions for a single call: every attempt times out; every attempt answers 200
  without \<open>choices\<close>; a transport error, then a 200 without \<open>choices\<close>, then an answer.\<close>

definition timeout_session :: "string http_post \<Rightarrow> nat \<Rightarrow> attempt_result" where
  "timeout_session req k = PostRaised (TimeoutError ''Connection timeout to host'')"


definition flaky_session :: "string http_post \<Rightarrow> nat \<Rightarrow> attempt_result" where
  "flaky_session req k =
     (if k = 0 then PostRaised (Exception ''connection reset'')
      else if k = 1 then reply_without_choices
      else reply ''A1'')"

text \<open>The dictionary of the end-to-end scenario.\<close>

definition scripted_responses :: "string \<rightharpoonup> string" where
  "scripted_responses =
     [''round1_member_a'' \<mapsto> ''A1'', ''round1_member_b'' \<mapsto> ''B1'', ''round2_member_a'' \<mapsto> ''A2'',
      ''round2_member_b'' \<mapsto> ''B2'', ''round3_chair'' \<mapsto> ''C1'']"

section \<open>Substrings\<close>

lemma sublist_mid: "sublist m (p @ m @ s)"
  by (rule sublist_appendI)

section \<open>The model invoker: three attempts\<close>

lemma str_nat_3: "str_nat 3 = ''3''"
  by (simp add: str_nat.simps digit_char_def)

lemma loop_at_2:
  "call_model_loop session req 3 2 =
     (case try_post (session req 2) of
        Inr content \<Rightarrow> (Inr (Some content), [Post req])
      | Inl e \<Rightarrow>
          (Inl (Exception (case e of
                  TimeoutError m \<Rightarrow> ''Model timed out after 3 attempts''
                | _ \<Rightarrow> ''Model failed after 3 attempts: '' @ str_exc e)),
           [Post req]))"
  by (subst call_model_loop.simps) (simp add: str_nat_3 split: sum.splits py_exception.splits)

lemma loop_at_1:
  "call_model_loop session req 3 (Suc 0) =
     (case try_post (session req (Suc 0)) of
        Inr content \<Rightarrow> (Inr (Some content), [Post req])
      | Inl e \<Rightarrow> (fst (call_model_loop session req 3 2),
                   Post req # Sleep 2 # snd (call_model_loop session req 3 2)))"
  by (subst call_model_loop.simps)
     (auto simp: numeral_2_eq_2 split: sum.splits py_exception.splits prod.splits)

lemma loop_at_0:
  "call_model_loop session req 3 0 =
     (case try_post (session req 0) of
        Inr content \<Rightarrow> (Inr (Some content), [Post req])
      | Inl e \<Rightarrow> (fst (call_model_loop session req 3 (Suc 0)),
                   Post req # Sleep 1 # snd (call_model_loop session req 3 (Suc 0))))"
  by (subst call_model_loop.simps)
     (auto split: sum.splits py_exception.splits prod.splits)

lemma call_model_loop_unrolled:
  "call_model_loop session req 3 0 =
     (case try_post (session req 0) of
        Inr content \<Rightarrow> (Inr (Some content), [Post req])
      | Inl e0 \<Rightarrow>
     (case try_post (session req 1) of
        Inr content \<Rightarrow> (Inr (Some content), [Post req, Sleep 1, Post req])
      | Inl e1 \<Rightarrow>
     (case try_post (session req 2) of
        Inr content \<Rightarrow> (Inr (Some content), [Post req, Sleep 1, Post req, Sleep 2, Post req])
      | Inl e2 \<Rightarrow>
          (Inl (Exception (case e2 of
                  TimeoutError m \<Rightarrow> ''Model timed out after 3 attempts''
                | _ \<Rightarrow> ''Model failed after 3 attempts: '' @ str_exc e2)),
           [Post req, Sleep 1, Post req, Sleep 2, Post req]))))"
  by (simp add: loop_at_0 loop_at_1 loop_at_2 split: sum.splits)


section \<open>The debate: every run\<close>

lemma call_at_facts:
  assumes "call_at self endpoint st sp um t mn = (r, c)"
  shows "call_stage c = st" and "call_outcome c = r" and "r \<noteq> Inr None"
    and "set (posted (call_events c)) = {build_request self sp um t mn}"
  using assms
  by (auto simp: call_at_def call_model_def call_model_loop_unrolled
           split: sum.splits prod.splits)

lemma py_len_Some [simp]: "py_len (Some s) = Inr (length s)"
  by (simp add: py_len_def)

lemma debate_round3_cases:
  assumes run: "debate_round3 self endpoint q responses r1a r1b r2a r2b calls = (res, calls')"
  obtains
    (failed3) c e where
      "calls' = calls @ [c]"
      "made self Round3_Chair (get_chair_synthesis_prompt q r1a r1b r2a r2b) c"
      "call_outcome c = Inl e" "res = Inl e"
  | (done3) c t where
      "calls' = calls @ [c]"
      "made self Round3_Chair (get_chair_synthesis_prompt q r1a r1b r2a r2b) c"
      "call_outcome c = Inr (Some t)" "res = Inr (responses(''round3_chair'' \<mapsto> t))"
proof -
  obtain r c where rc:
    "call_at self endpoint Round3_Chair get_chair_prompt
       (get_chair_synthesis_prompt q r1a r1b r2a r2b)
       (temperature (chair (config self))) (deployment_name (chair (config self))) = (r, c)"
    by (meson surj_pair)
  note f = call_at_facts [OF rc]
  have m: "made self Round3_Chair (get_chair_synthesis_prompt q r1a r1b r2a r2b) c"
    using f by (simp add: made_def)
  show thesis
  proof (cases r)
    case (Inl e)
    with run rc f m failed3 show thesis
      by (auto simp: debate_round3_def)
  next
    case (Inr v)
    with f obtain t where v: "v = Some t" by (cases v) auto
    with Inr run rc f m done3 show thesis
      by (auto simp: debate_round3_def)
  qed
qed


lemma debate_round2_cases:
  assumes run: "debate_round2 self endpoint q responses r1a r1b calls = (res, calls')"
  obtains
    (failed2a) ca e where
      "calls' = calls @ [ca]"
      "made self Round2_A (get_round2_prompt_for_member_a q r1b) ca"
      "call_outcome ca = Inl e" "res = Inl e"
  | (failed2b) ca cb a2 e where
      "calls' = calls @ [ca, cb]"
      "made self Round2_A (get_round2_prompt_for_member_a q r1b) ca"
      "call_outcome ca = Inr (Some a2)"
      "made self Round2_B (get_round2_prompt_for_member_b q r1a a2) cb"
      "call_outcome cb = Inl e" "res = Inl e"
  | (failed2c) ca cb cc a2 b2 e where
      "calls' = calls @ [ca, cb, cc]"
      "made self Round2_A (get_round2_prompt_for_member_a q r1b) ca"
      "call_outcome ca = Inr (Some a2)"
      "made self Round2_B (get_round2_prompt_for_member_b q r1a a2) cb"
      "call_outcome cb = Inr (Some b2)"
      "made self Round3_Chair (get_chair_synthesis_prompt q r1a r1b a2 b2) cc"
      "call_outcome cc = Inl e" "res = Inl e"
  | (done2) ca cb cc a2 b2 c3 where
      "calls' = calls @ [ca, cb, cc]"
      "made self Round2_A (get_round2_prompt_for_member_a q r1b) ca"
      "call_outcome ca = Inr (Some a2)"
      "made self Round2_B (get_round2_prompt_for_member_b q r1a a2) cb"
      "call_outcome cb = Inr (Some b2)"
      "made self Round3_Chair (get_chair_synthesis_prompt q r1a r1b a2 b2) cc"
      "call_outcome cc = Inr (Some c3)"
      "res = Inr (responses(''round2_member_a'' \<mapsto> a2, ''round2_member_b'' \<mapsto> b2,
                            ''round3_chair'' \<mapsto> c3))"
proof -
  obtain ra ca where rca:
    "call_at self endpoint Round2_A get_member_a_prompt (get_round2_prompt_for_member_a q r1b)
       (temperature (member_a (config self))) (deployment_name (member_a (config self))) = (ra, ca)"
    by (meson surj_pair)
  note fa = call_at_facts [OF rca]
  have ma: "made self Round2_A (get_round2_prompt_for_member_a q r1b) ca"
    using fa by (simp add: made_def)
  show thesis
  proof (cases ra)
    case (Inl e)
    with run rca fa ma failed2a show thesis
      by (auto simp: debate_round2_def)
  next
    case (Inr va)
    with fa obtain a2 where va: "va = Some a2" by (cases va) auto
    obtain rb cb where rcb:
      "call_at self endpoint Round2_B get_member_b_prompt (get_round2_prompt_for_member_b q r1a a2)
         (temperature (member_b (config self))) (deployment_name (member_b (config self))) = (rb, cb)"
      by (meson surj_pair)
    note fb = call_at_facts [OF rcb]
    have mb: "made self Round2_B (get_round2_prompt_for_member_b q r1a a2) cb"
      using fb by (simp add: made_def)
    have oa: "call_outcome ca = Inr (Some a2)" using fa Inr va by simp
    show thesis
    proof (cases rb)
      case (Inl e)
      have "calls' = calls @ [ca, cb]" "res = Inl e"
        using run rca rcb Inr va Inl by (auto simp: debate_round2_def)
      with ma mb oa fb Inl failed2b show thesis by auto
    next
      case rbv: (Inr vb)
      with fb obtain b2 where vb: "vb = Some b2" by (cases vb) auto
      have ob: "call_outcome cb = Inr (Some b2)" using fb rbv vb by simp
      have r3: "debate_round3 self endpoint q
                  (responses(''round2_member_a'' \<mapsto> a2, ''round2_member_b'' \<mapsto> b2))
                  r1a r1b a2 b2 (calls @ [ca, cb]) = (res, calls')"
        using run rca rcb Inr va rbv vb by (auto simp: debate_round2_def)
      from r3 show thesis
      proof (cases rule: debate_round3_cases)
        case (failed3 c e)
        with ma mb oa ob failed2c [of ca cb c a2 b2 e] show thesis by simp
      next
        case (done3 c t)
        with ma mb oa ob done2 [of ca cb c a2 b2 t] show thesis by simp
      qed
    qed
  qed
qed

lemma conduct_debate_cases:
  assumes run: "conduct_debate self endpoint q = (res, calls)"
  obtains
    (round1_a_failed) c1 c2 e where
      "calls = [c1, c2]"
      "made self Round1_A q c1" "made self Round1_B q c2"
      "call_outcome c1 = Inl e" "res = Inl (wrap e)"
  | (round1_b_failed) c1 c2 a1 e where
      "calls = [c1, c2]"
      "made self Round1_A q c1" "made self Round1_B q c2"
      "call_outcome c1 = Inr (Some a1)" "call_outcome c2 = Inl e" "res = Inl (wrap e)"
  | (round2_a_failed) c1 c2 c3 a1 b1 e where
      "calls = [c1, c2, c3]"
      "made self Round1_A q c1" "made self Round1_B q c2"
      "call_outcome c1 = Inr (Some a1)" "call_outcome c2 = Inr (Some b1)"
      "made self Round2_A (get_round2_prompt_for_member_a q b1) c3"
      "call_outcome c3 = Inl e" "res = Inl (wrap e)"
  | (round2_b_failed) c1 c2 c3 c4 a1 b1 a2 e where
      "calls = [c1, c2, c3, c4]"
      "made self Round1_A q c1" "made self Round1_B q c2"
      "call_outcome c1 = Inr (Some a1)" "call_outcome c2 = Inr (Some b1)"
      "made self Round2_A (get_round2_prompt_for_member_a q b1) c3"
      "call_outcome c3 = Inr (Some a2)"
      "made self Round2_B (get_round2_prompt_for_member_b q a1 a2) c4"
      "call_outcome c4 = Inl e" "res = Inl (wrap e)"
  | (round3_failed) c1 c2 c3 c4 c5 a1 b1 a2 b2 e where
      "calls = [c1, c2, c3, c4, c5]"
      "made self Round1_A q c1" "made self Round1_B q c2"
      "call_outcome c1 = Inr (Some a1)" "call_outcome c2 = Inr (Some b1)"
      "made self Round2_A (get_round2_prompt_for_member_a q b1) c3"
      "call_outcome c3 = Inr (Some a2)"
      "made self Round2_B (get_round2_prompt_for_member_b q a1 a2) c4"
      "call_outcome c4 = Inr (Some b2)"
      "made self Round3_Chair (get_chair_synthesis_prompt q a1 b1 a2 b2) c5"
      "call_outcome c5 = Inl e" "res = Inl (wrap e)"
  | (completed) c1 c2 c3 c4 c5 a1 b1 a2 b2 v where
      "calls = [c1, c2, c3, c4, c5]"
      "made self Round1_A q c1" "made self Round1_B q c2"
      "call_outcome c1 = Inr (Some a1)" "call_outcome c2 = Inr (Some b1)"
      "made self Round2_A (get_round2_prompt_for_member_a q b1) c3"
      "call_outcome c3 = Inr (Some a2)"
      "made self Round2_B (get_round2_prompt_for_member_b q a1 a2) c4"
      "call_outcome c4 = Inr (Some b2)"
      "made self Round3_Chair (get_chair_synthesis_prompt q a1 b1 a2 b2) c5"
      "call_outcome c5 = Inr (Some v)"
      "res = Inr [''round1_member_a'' \<mapsto> a1, ''round1_member_b'' \<mapsto> b1,
                  ''round2_member_a'' \<mapsto> a2, ''round2_member_b'' \<mapsto> b2,
                  ''round3_chair'' \<mapsto> v]"
proof -
  obtain ra c1 where rc1:
    "call_at self endpoint Round1_A get_member_a_prompt q
       (temperature (member_a (config self))) (deployment_name (member_a (config self))) = (ra, c1)"
    by (meson surj_pair)
  obtain rb c2 where rc2:
    "call_at self endpoint Round1_B get_member_b_prompt q
       (temperature (member_b (config self))) (deployment_name (member_b (config self))) = (rb, c2)"
    by (meson surj_pair)
  note f1 = call_at_facts [OF rc1] and f2 = call_at_facts [OF rc2]
  have m1: "made self Round1_A q c1" using f1 by (simp add: made_def)
  have m2: "made self Round1_B q c2" using f2 by (simp add: made_def)
  show thesis
  proof (cases ra)
    case (Inl e)
    have "calls = [c1, c2]" "res = Inl (wrap e)"
      using run rc1 rc2 Inl by (auto simp: conduct_debate_def debate_round1_def wrap_def)
    with m1 m2 f1 Inl round1_a_failed show thesis by auto
  next
    case rav: (Inr va)
    with f1 obtain a1 where va: "va = Some a1" by (cases va) auto
    have o1: "call_outcome c1 = Inr (Some a1)" using f1 rav va by simp
    show thesis
    proof (cases rb)
      case (Inl e)
      have "calls = [c1, c2]" "res = Inl (wrap e)"
        using run rc1 rc2 rav va Inl by (auto simp: conduct_debate_def debate_round1_def wrap_def)
      with m1 m2 o1 f2 Inl round1_b_failed show thesis by auto
    next
      case rbv: (Inr vb)
      with f2 obtain b1 where vb: "vb = Some b1" by (cases vb) auto
      have o2: "call_outcome c2 = Inr (Some b1)" using f2 rbv vb by simp
      obtain res2 calls2 where r2:
        "debate_round2 self endpoint q
           (initial_responses(''round1_member_a'' \<mapsto> a1, ''round1_member_b'' \<mapsto> b1))
           a1 b1 [c1, c2] = (res2, calls2)"
        by (meson surj_pair)
      have out: "calls = calls2"
                "res = (case res2 of Inl e \<Rightarrow> Inl (wrap e) | Inr r \<Rightarrow> Inr r)"
        using run rc1 rc2 rav va rbv vb r2
        by (auto simp: conduct_debate_def debate_round1_def wrap_def split: sum.splits)
      have dict: "initial_responses(''round1_member_a'' \<mapsto> a1, ''round1_member_b'' \<mapsto> b1,
                     ''round2_member_a'' \<mapsto> a2, ''round2_member_b'' \<mapsto> b2, ''round3_chair'' \<mapsto> v)
                  = [''round1_member_a'' \<mapsto> a1, ''round1_member_b'' \<mapsto> b1,
                     ''round2_member_a'' \<mapsto> a2, ''round2_member_b'' \<mapsto> b2,
                     ''round3_chair'' \<mapsto> v]" for a2 b2 v
        by (rule ext) (simp add: initial_responses_def)
      from r2 show thesis
      proof (cases rule: debate_round2_cases)
        case (failed2a ca e)
        with out m1 m2 o1 o2 round2_a_failed [of c1 c2 ca a1 b1 e] show thesis by simp
      next
        case (failed2b ca cb a2 e)
        with out m1 m2 o1 o2 round2_b_failed [of c1 c2 ca cb a1 b1 a2 e] show thesis by simp
      next
        case (failed2c ca cb cc a2 b2 e)
        with out m1 m2 o1 o2 round3_failed [of c1 c2 ca cb cc a1 b1 a2 b2 e] show thesis by simp
      next
        case (done2 ca cb cc a2 b2 c3)
        with out m1 m2 o1 o2 dict completed [of c1 c2 ca cb cc a1 b1 a2 b2 c3] show thesis by simp
      qed
    qed
  qed
qed

section \<open>Runs on the concrete endpoints\<close>

lemma try_post_reply [simp]: "try_post (reply t) = Inr t"
  by (simp add: try_post_def reply_def)

lemma try_post_raised [simp]: "try_post (PostRaised e) = Inl e"
  by (simp add: try_post_def)

lemma try_post_without_choices [simp]: "try_post reply_without_choices = Inl (KeyError ''choices'')"
  by (simp add: try_post_def reply_without_choices_def)

lemma call_at_scripted:
  "call_at self scripted_endpoint st sp um t mn =
     (Inr (Some (scripted_answer st)),
      \<lparr> call_stage = st, call_events = [Post (build_request self sp um t mn)],
        call_outcome = Inr (Some (scripted_answer st)) \<rparr>)"
  by (simp add: call_at_def call_model_def call_model_loop_unrolled scripted_endpoint_def)

lemma scripted_run:
  "conduct_debate example_orchestrator scripted_endpoint q =
     (Inr scripted_responses,
      [\<lparr> call_stage = Round1_A, call_events = [Post (stage_request example_orchestrator Round1_A q)],
         call_outcome = Inr (Some ''A1'') \<rparr>,
       \<lparr> call_stage = Round1_B, call_events = [Post (stage_request example_orchestrator Round1_B q)],
         call_outcome = Inr (Some ''B1'') \<rparr>,
       \<lparr> call_stage = Round2_A,
         call_events = [Post (stage_request example_orchestrator Round2_A
                          (get_round2_prompt_for_member_a q ''B1''))],
         call_outcome = Inr (Some ''A2'') \<rparr>,
       \<lparr> call_stage = Round2_B,
         call_events = [Post (stage_request example_orchestrator Round2_B
                          (get_round2_prompt_for_member_b q ''A1'' ''A2''))],
         call_outcome = Inr (Some ''B2'') \<rparr>,
       \<lparr> call_stage = Round3_Chair,
         call_events = [Post (stage_request example_orchestrator Round3_Chair
                          (get_chair_synthesis_prompt q ''A1'' ''B1'' ''A2'' ''B2''))],
         call_outcome = Inr (Some ''C1'') \<rparr>])"
proof -
  have dict: "initial_responses(''round1_member_a'' \<mapsto> ''A1'', ''round1_member_b'' \<mapsto> ''B1'',
                 ''round2_member_a'' \<mapsto> ''A2'', ''round2_member_b'' \<mapsto> ''B2'',
                 ''round3_chair'' \<mapsto> ''C1'') = scripted_responses"
    by (rule ext) (simp add: initial_responses_def scripted_responses_def)
  show ?thesis
    by (simp add: conduct_debate_def debate_round1_def debate_round2_def debate_round3_def
          call_at_scripted py_len_def dict Let_def)
qed

lemma call_at_down:
  "call_at self (down_at s (Exception m)) st sp um t mn =
     (if st = s
      then (Inl (Exception (''Model failed after 3 attempts: '' @ m)),
            \<lparr> call_stage = st,
              call_events = [Post (build_request self sp um t mn), Sleep 1,
                             Post (build_request self sp um t mn), Sleep 2,
                             Post (build_request self sp um t mn)],
              call_outcome = Inl (Exception (''Model failed after 3 attempts: '' @ m)) \<rparr>)
      else call_at self scripted_endpoint st sp um t mn)"
  by (simp add: call_at_def call_model_def call_model_loop_unrolled down_at_def scripted_endpoint_def)

lemma down_round1_a_run:
  "conduct_debate example_orchestrator (down_at Round1_A (Exception m)) q =
     (Inl (Exception (''Debate execution failed: Model failed after 3 attempts: '' @ m)),
      [\<lparr> call_stage = Round1_A,
         call_events = [Post (stage_request example_orchestrator Round1_A q), Sleep 1,
                        Post (stage_request example_orchestrator Round1_A q), Sleep 2,
                        Post (stage_request example_orchestrator Round1_A q)],
         call_outcome = Inl (Exception (''Model failed after 3 attempts: '' @ m)) \<rparr>,
       \<lparr> call_stage = Round1_B, call_events = [Post (stage_request example_orchestrator Round1_B q)],
         call_outcome = Inr (Some ''B1'') \<rparr>])"
  by (simp add: conduct_debate_def debate_round1_def call_at_down call_at_scripted Let_def)

lemma down_round1_b_run:
  "conduct_debate example_orchestrator (down_at Round1_B (Exception m)) q =
     (Inl (Exception (''Debate execution failed: Model failed after 3 attempts: '' @ m)),
      [\<lparr> call_stage = Round1_A, call_events = [Post (stage_request example_orchestrator Round1_A q)],
         call_outcome = Inr (Some ''A1'') \<rparr>,
       \<lparr> call_stage = Round1_B,
         call_events = [Post (stage_request example_orchestrator Round1_B q), Sleep 1,
                        Post (stage_request example_orchestrator Round1_B q), Sleep 2,
                        Post (stage_request example_orchestrator Round1_B q)],
         call_outcome = Inl (Exception (''Model failed after 3 attempts: '' @ m)) \<rparr>])"
  by (simp add: conduct_debate_def debate_round1_def call_at_down call_at_scripted Let_def)


lemma down_round2_b_run:
  "conduct_debate example_orchestrator (down_at Round2_B (Exception m)) q =
     (Inl (Exception (''Debate execution failed: Model failed after 3 attempts: '' @ m)),
      [\<lparr> call_stage = Round1_A, call_events = [Post (stage_request example_orchestrator Round1_A q)],
         call_outcome = Inr (Some ''A1'') \<rparr>,
       \<lparr> call_stage = Round1_B, call_events = [Post (stage_request example_orchestrator Round1_B q)],
         call_outcome = Inr (Some ''B1'') \<rparr>,
       \<lparr> call_stage = Round2_A,
         call_events =
           [Post (stage_request example_orchestrator Round2_A (get_round2_prompt_for_member_a q ''B1''))],
         call_outcome = Inr (Some ''A2'') \<rparr>,
       \<lparr> call_stage = Round2_B,
         call_events =
           [Post (stage_request example_orchestrator Round2_B
                    (get_round2_prompt_for_member_b q ''A1'' ''A2'')),
            Sleep 1,
            Post (stage_request example_orchestrator Round2_B
                    (get_round2_prompt_for_member_b q ''A1'' ''A2'')),
            Sleep 2,
            Post (stage_request example_orchestrator Round2_B
                    (get_round2_prompt_for_member_b q ''A1'' ''A2''))],
         call_outcome = Inl (Exception (''Model failed after 3 attempts: '' @ m)) \<rparr>])"
  by (simp add: conduct_debate_def debate_round1_def debate_round2_def call_at_down
        call_at_scripted Let_def)

lemma round1_down_run:
  "conduct_debate example_orchestrator round1_down q =
     (Inl (Exception ''Debate execution failed: Model failed after 3 attempts: member A unreachable''),
      [\<lparr> call_stage = Round1_A,
         call_events = [Post (stage_request example_orchestrator Round1_A q), Sleep 1,
                        Post (stage_request example_orchestrator Round1_A q), Sleep 2,
                        Post (stage_request example_orchestrator Round1_A q)],
         call_outcome = Inl (Exception ''Model failed after 3 attempts: member A unreachable'') \<rparr>,
       \<lparr> call_stage = Round1_B,
         call_events = [Post (stage_request example_orchestrator Round1_B q), Sleep 1,
                        Post (stage_request example_orchestrator Round1_B q), Sleep 2,
                        Post (stage_request example_orchestrator Round1_B q)],
         call_outcome = Inl (Exception ''Model failed after 3 attempts: member B unreachable'') \<rparr>])"
  by (simp add: conduct_debate_def debate_round1_def call_at_def call_model_def
        call_model_loop_unrolled round1_down_def Let_def)

section \<open>Retry policy of the model invoker\<close>

text \<open>
  C3, as the code has it. A call with the default budget makes at most three attempts and
  stops at the first that succeeds; it sleeps 1 before the second attempt and 2 before the
  third. When all three fail it raises an error naming the exhausted budget: "Model failed
  after 3 attempts: " followed by the text of the last error, or, when the last attempt
  timed out, "Model timed out after 3 attempts" without the text of the timeout.
\<close>

theorem call_model_three_attempts:
  "call_model self session sp um t mn 3 =
     (let req = build_request self sp um t mn in
      case try_post (session req 0) of
        Inr content \<Rightarrow> (Inr (Some content), [Post req])
      | Inl e0 \<Rightarrow>
     (case try_post (session req 1) of
        Inr content \<Rightarrow> (Inr (Some content), [Post req, Sleep 1, Post req])
      | Inl e1 \<Rightarrow>
     (case try_post (session req 2) of
        Inr content \<Rightarrow> (Inr (Some content), [Post req, Sleep 1, Post req, Sleep 2, Post req])
      | Inl e2 \<Rightarrow>
          (Inl (Exception (case e2 of
                  TimeoutError m \<Rightarrow> ''Model timed out after 3 attempts''
                | _ \<Rightarrow> ''Model failed after 3 attempts: '' @ str_exc e2)),
           [Post req, Sleep 1, Post req, Sleep 2, Post req]))))"
  unfolding call_model_def Let_def by (rule call_model_loop_unrolled)

text \<open>
  C3 as stated fails when the last attempt times out: three attempts raise a timeout with
  the text "Connection timeout to host", and the error raised after the third does not
  contain that text.
\<close>

theorem timeout_text_is_dropped:
  "try_post (timeout_session (build_request example_orchestrator get_member_a_prompt
               ''Should we use microservices?'' ''0.7'' ''gpt-4.1'') 2)
     = Inl (TimeoutError ''Connection timeout to host'')
   \<and> call_model example_orchestrator timeout_session get_member_a_prompt
         ''Should we use microservices?'' ''0.7'' ''gpt-4.1'' 3
       = (Inl (Exception ''Model timed out after 3 attempts''),
          [Post (build_request example_orchestrator get_member_a_prompt
                   ''Should we use microservices?'' ''0.7'' ''gpt-4.1''),
           Sleep 1,
           Post (build_request example_orchestrator get_member_a_prompt
                   ''Should we use microservices?'' ''0.7'' ''gpt-4.1''),
           Sleep 2,
           Post (build_request example_orchestrator get_member_a_prompt
                   ''Should we use microservices?'' ''0.7'' ''gpt-4.1'')])
   \<and> \<not> sublist ''Connection timeout to host'' ''Model timed out after 3 attempts''"
proof -
  have "\<not> sublist ''Connection timeout to host'' ''Model timed out after 3 attempts''"
    by (simp add: sublist_code prefix_code)
  then show ?thesis
    by (simp add: call_model_def call_model_loop_unrolled timeout_session_def)
qed



section \<open>The generation cap\<close>

lemma posted_loop: "set (posted (snd (call_model_loop session req n a))) \<subseteq> {req}"
proof (induction session req n a rule: call_model_loop.induct)
  case (1 session req max_retries attempt)
  show ?case
  proof (cases "attempt < max_retries")
    case False
    then show ?thesis by (simp add: call_model_loop.simps)
  next
    case True
    show ?thesis
    proof (cases "try_post (session req attempt)")
      case (Inr content)
      with True show ?thesis
        by (simp add: call_model_loop.simps [of session req max_retries attempt])
    next
      case (Inl e)
      show ?thesis
      proof (cases "attempt < max_retries - 1")
        case False
        with True Inl show ?thesis
          by (simp add: call_model_loop.simps [of session req max_retries attempt]
                   split: py_exception.splits)
      next
        case more: True
        have "set (posted (snd (call_model_loop session req max_retries (attempt + 1)))) \<subseteq> {req}"
          using "1.IH" [OF True Inl _ more refl] by (cases e) auto
        with True Inl more show ?thesis
          by (auto simp: call_model_loop.simps [of session req max_retries attempt]
                   split: py_exception.splits prod.splits)
      qed
    qed
  qed
qed

lemma max_tokens_build_request [simp]:
  "max_tokens (json (build_request self sp um t mn)) = 4000"
  by (simp add: build_request_def)

lemma max_tokens_stage_request [simp]:
  "max_tokens (json (stage_request self st um)) = 4000"
  by (cases st) simp_all

lemma conduct_debate_calls_made:
  assumes "conduct_debate self endpoint q = (res, calls)" and "c \<in> set calls"
  shows "\<exists>um. made self (call_stage c) um c"
  using assms(1)
proof (cases rule: conduct_debate_cases)
  case (round1_a_failed c1 c2 e)
  with assms(2) show ?thesis by (auto simp: made_def)
next
  case (round1_b_failed c1 c2 a1 e)
  with assms(2) show ?thesis by (auto simp: made_def)
next
  case (round2_a_failed c1 c2 c3 a1 b1 e)
  with assms(2) show ?thesis by (auto simp: made_def)
next
  case (round2_b_failed c1 c2 c3 c4 a1 b1 a2 e)
  with assms(2) show ?thesis by (auto simp: made_def)
next
  case (round3_failed c1 c2 c3 c4 c5 a1 b1 a2 b2 e)
  with assms(2) show ?thesis by (auto simp: made_def)
next
  case (completed c1 c2 c3 c4 c5 a1 b1 a2 b2 v)
  with assms(2) show ?thesis by (auto simp: made_def)
qed

text \<open>
  C9. Every request the invoker posts carries \<open>max_tokens = 4000\<close>, whatever the retry
  budget; and in a debate every call of every round and participant posts at least one
  request, each with that cap.
\<close>

theorem every_request_caps_max_tokens:
  "(\<forall>r \<in> set (posted (snd (call_model self session sp um t mn n))). max_tokens (json r) = 4000)
   \<and> (\<forall>c \<in> set (snd (conduct_debate self endpoint q)).
         posted (call_events c) \<noteq> []
         \<and> (\<forall>r \<in> set (posted (call_events c)). max_tokens (json r) = 4000))"
proof (intro conjI ballI)
  fix r assume "r \<in> set (posted (snd (call_model self session sp um t mn n)))"
  then have "r = build_request self sp um t mn"
    using posted_loop [of session "build_request self sp um t mn" n 0]
    by (auto simp: call_model_def)
  then show "max_tokens (json r) = 4000" by simp
next
  fix c assume c: "c \<in> set (snd (conduct_debate self endpoint q))"
  obtain res calls where run: "conduct_debate self endpoint q = (res, calls)"
    by (meson surj_pair)
  with c conduct_debate_calls_made [OF run, of c]
  obtain um where m: "made self (call_stage c) um c" by auto
  from m show "posted (call_events c) \<noteq> []" by (auto simp: made_def)
  fix r assume "r \<in> set (posted (call_events c))"
  with m show "max_tokens (json r) = 4000" by (auto simp: made_def)
qed

text \<open>The cap on a call that needs all three attempts and on the five calls of the
  scripted debate.\<close>

theorem every_request_caps_max_tokens_witness:
  "build_request example_orchestrator get_member_a_prompt
      ''Should we use microservices?'' ''0.7'' ''gpt-4.1''
     \<in> set (posted (snd (call_model example_orchestrator flaky_session get_member_a_prompt
            ''Should we use microservices?'' ''0.7'' ''gpt-4.1'' 3)))
   \<and> max_tokens (json (build_request example_orchestrator get_member_a_prompt
        ''Should we use microservices?'' ''0.7'' ''gpt-4.1'')) = 4000
   \<and> length (snd (conduct_debate example_orchestrator scripted_endpoint
                    ''Should we use microservices?'')) = 5
   \<and> \<not> (\<exists>c \<in> set (snd (conduct_debate example_orchestrator scripted_endpoint
                    ''Should we use microservices?'')).
         posted (call_events c) = []
         \<or> (\<exists>r \<in> set (posted (call_events c)). max_tokens (json r) \<noteq> 4000))"
proof -
  let ?req = "build_request example_orchestrator get_member_a_prompt
      ''Should we use microservices?'' ''0.7'' ''gpt-4.1''"
  have a: "?req \<in> set (posted (snd (call_model example_orchestrator flaky_session
            get_member_a_prompt ''Should we use microservices?'' ''0.7'' ''gpt-4.1'' 3)))"
    by (simp add: call_model_def call_model_loop_unrolled flaky_session_def)
  have b: "length (snd (conduct_debate example_orchestrator scripted_endpoint
                    ''Should we use microservices?'')) = 5"
    by (simp add: scripted_run)
  note inst = every_request_caps_max_tokens
         [of example_orchestrator flaky_session get_member_a_prompt
             "''Should we use microservices?''" "''0.7''" "''gpt-4.1''" 3
             scripted_endpoint "''Should we use microservices?''"]
  from inst a have c: "max_tokens (json ?req) = 4000" by blast
  from inst have d: "\<not> (\<exists>c \<in> set (snd (conduct_debate example_orchestrator scripted_endpoint
                    ''Should we use microservices?'')).
         posted (call_events c) = []
         \<or> (\<exists>r \<in> set (posted (call_events c)). max_tokens (json r) \<noteq> 4000))"
    by blast
  from a b c d show ?thesis by blast
qed

section \<open>Ordering and failure of the debate\<close>

lemma nth_explicit [simp]:
  "[a, b] ! Suc 0 = b" "[a, b, c] ! 2 = c" "[a, b, c, d] ! 3 = d" "[a, b, c, d, e] ! 4 = e"
  "[a, b, c, d] ! 2 = c" "[a, b, c, d, e] ! 2 = c" "[a, b, c, d, e] ! 3 = d"
  by (simp_all add: numeral_eq_Suc)

text \<open>
  C1. In every debate, each call was made after the calls it depends on had returned their
  text: every dependency of a call is an earlier, successful entry of the list of calls.
  When a round-1 call fails, the debate fails and the two round-1 calls are the only ones
  made; when member B's round-2 call fails, the debate fails and no chair call is made.
\<close>

theorem calls_follow_their_dependencies:
  assumes run: "conduct_debate self endpoint q = (res, calls)"
  shows "(\<forall>i<length calls. \<forall>d\<in>set (depends_on (call_stage (calls ! i))).
            \<exists>j<i. call_stage (calls ! j) = d \<and> succeeded (calls ! j))
       \<and> ((\<exists>c\<in>set calls. (call_stage c = Round1_A \<or> call_stage c = Round1_B) \<and> failed c)
            \<longrightarrow> (\<exists>e. res = Inl e) \<and> map call_stage calls = [Round1_A, Round1_B])
       \<and> ((\<exists>c\<in>set calls. call_stage c = Round2_B \<and> failed c)
            \<longrightarrow> (\<exists>e. res = Inl e) \<and> (\<forall>c\<in>set calls. call_stage c \<noteq> Round3_Chair))"
  using run
proof (cases rule: conduct_debate_cases)
  case (round1_a_failed c1 c2 e)
  then show ?thesis
    by (auto simp: made_def succeeded_def failed_def less_Suc_eq)
next
  case (round1_b_failed c1 c2 a1 e)
  then show ?thesis
    by (auto simp: made_def succeeded_def failed_def less_Suc_eq)
next
  case (round2_a_failed c1 c2 c3 a1 b1 e)
  then show ?thesis
    by (auto simp: made_def succeeded_def failed_def less_Suc_eq numeral_eq_Suc)
next
  case (round2_b_failed c1 c2 c3 c4 a1 b1 a2 e)
  then show ?thesis
    by (auto simp: made_def succeeded_def failed_def less_Suc_eq numeral_eq_Suc)
next
  case (round3_failed c1 c2 c3 c4 c5 a1 b1 a2 b2 e)
  then show ?thesis
    by (auto simp: made_def succeeded_def failed_def less_Suc_eq numeral_eq_Suc)
next
  case (completed c1 c2 c3 c4 c5 a1 b1 a2 b2 v)
  then show ?thesis
    by (auto simp: made_def succeeded_def failed_def less_Suc_eq numeral_eq_Suc)
qed


text \<open>The scripted debate, a debate with member A's round-1 endpoint down, and one with
  member B's round-2 endpoint down.\<close>

theorem calls_follow_their_dependencies_witness:
  "length (snd (conduct_debate example_orchestrator scripted_endpoint ''Should we use microservices?'')) = 5
   \<and> call_stage (snd (conduct_debate example_orchestrator scripted_endpoint
                        ''Should we use microservices?'') ! 4) = Round3_Chair
   \<and> (\<exists>j<4. call_stage (snd (conduct_debate example_orchestrator scripted_endpoint
                                   ''Should we use microservices?'') ! j) = Round2_B
               \<and> succeeded (snd (conduct_debate example_orchestrator scripted_endpoint
                                   ''Should we use microservices?'') ! j))
   \<and> (\<exists>c\<in>set (snd (conduct_debate example_orchestrator
                        (down_at Round1_A (Exception ''connection refused''))
                        ''Should we use microservices?'')).
          (call_stage c = Round1_A \<or> call_stage c = Round1_B) \<and> failed c)
   \<and> (\<exists>e. fst (conduct_debate example_orchestrator
                  (down_at Round1_A (Exception ''connection refused''))
                  ''Should we use microservices?'') = Inl e)
   \<and> map call_stage (snd (conduct_debate example_orchestrator
                            (down_at Round1_A (Exception ''connection refused''))
                            ''Should we use microservices?'')) = [Round1_A, Round1_B]
   \<and> (\<exists>c\<in>set (snd (conduct_debate example_orchestrator
                        (down_at Round2_B (Exception ''connection refused''))
                        ''Should we use microservices?'')).
          call_stage c = Round2_B \<and> failed c)
   \<and> (\<exists>e. fst (conduct_debate example_orchestrator
                  (down_at Round2_B (Exception ''connection refused''))
                  ''Should we use microservices?'') = Inl e)
   \<and> \<not> (\<exists>c\<in>set (snd (conduct_debate example_orchestrator
                        (down_at Round2_B (Exception ''connection refused''))
                        ''Should we use microservices?'')).
          call_stage c = Round3_Chair)"
proof -
  let ?ok = "conduct_debate example_orchestrator scripted_endpoint ''Should we use microservices?''"
  let ?d1 = "conduct_debate example_orchestrator (down_at Round1_A (Exception ''connection refused''))
               ''Should we use microservices?''"
  let ?d2 = "conduct_debate example_orchestrator (down_at Round2_B (Exception ''connection refused''))
               ''Should we use microservices?''"
  have len: "length (snd ?ok) = 5" by (simp add: scripted_run)
  have st: "call_stage (snd ?ok ! 4) = Round3_Chair" by (simp add: scripted_run)
  have h1: "\<exists>c\<in>set (snd ?d1). (call_stage c = Round1_A \<or> call_stage c = Round1_B) \<and> failed c"
    by (simp add: down_round1_a_run failed_def)
  have h2: "\<exists>c\<in>set (snd ?d2). call_stage c = Round2_B \<and> failed c"
    by (simp add: down_round2_b_run failed_def)
  have ok: "?ok = (fst ?ok, snd ?ok)" and d1: "?d1 = (fst ?d1, snd ?d1)"
    and d2: "?d2 = (fst ?d2, snd ?d2)" by simp_all
  have dep: "Round2_B \<in> set (depends_on (call_stage (snd ?ok ! 4)))"
    by (simp add: st)
  have i: "4 < length (snd ?ok)" by (simp add: len)
  from calls_follow_their_dependencies [OF ok] i dep
  have a: "\<exists>j<4. call_stage (snd ?ok ! j) = Round2_B \<and> succeeded (snd ?ok ! j)"
    by blast
  from calls_follow_their_dependencies [OF d1] h1
  have b: "(\<exists>e. fst ?d1 = Inl e) \<and> map call_stage (snd ?d1) = [Round1_A, Round1_B]"
    by blast
  from calls_follow_their_dependencies [OF d2] h2
  have c: "(\<exists>e. fst ?d2 = Inl e) \<and> \<not> (\<exists>c\<in>set (snd ?d2). call_stage c = Round3_Chair)"
    by blast
  from len st a h1 b h2 c show ?thesis by blast
qed






text \<open>
  C6. Both round-1 calls are always made. When member A's call fails the debate fails
  with member A's error, whatever member B's call did; when member A's call succeeds and
  member B's fails the debate fails with member B's error. No later call is made.
\<close>

theorem round1_member_a_error_first:
  assumes run: "conduct_debate self endpoint q = (res, calls)"
  shows "map call_stage (take 2 calls) = [Round1_A, Round1_B]
       \<and> (\<forall>ea. call_outcome (calls ! 0) = Inl ea
              \<longrightarrow> res = Inl (Exception (''Debate execution failed: '' @ str_exc ea))
                  \<and> length calls = 2)
       \<and> (\<forall>eb. succeeded (calls ! 0) \<and> call_outcome (calls ! 1) = Inl eb
              \<longrightarrow> res = Inl (Exception (''Debate execution failed: '' @ str_exc eb))
                  \<and> length calls = 2)"
  using run
  by (cases rule: conduct_debate_cases) (auto simp: made_def wrap_def succeeded_def)

text \<open>Both endpoints down, each with its own error; and only member B's down.\<close>

theorem round1_member_a_error_first_witness:
  "call_outcome (snd (conduct_debate example_orchestrator round1_down
                        ''Should we use microservices?'') ! 0)
     = Inl (Exception ''Model failed after 3 attempts: member A unreachable'')
   \<and> call_outcome (snd (conduct_debate example_orchestrator round1_down
                        ''Should we use microservices?'') ! 1)
     = Inl (Exception ''Model failed after 3 attempts: member B unreachable'')
   \<and> fst (conduct_debate example_orchestrator round1_down ''Should we use microservices?'')
     = Inl (Exception
         ''Debate execution failed: Model failed after 3 attempts: member A unreachable'')
   \<and> succeeded (snd (conduct_debate example_orchestrator
                        (down_at Round1_B (Exception ''connection refused''))
                        ''Should we use microservices?'') ! 0)
   \<and> call_outcome (snd (conduct_debate example_orchestrator
                        (down_at Round1_B (Exception ''connection refused''))
                        ''Should we use microservices?'') ! 1)
     = Inl (Exception ''Model failed after 3 attempts: connection refused'')
   \<and> fst (conduct_debate example_orchestrator (down_at Round1_B (Exception ''connection refused''))
          ''Should we use microservices?'')
     = Inl (Exception ''Debate execution failed: Model failed after 3 attempts: connection refused'')"
proof -
  let ?both = "conduct_debate example_orchestrator round1_down ''Should we use microservices?''"
  let ?b = "conduct_debate example_orchestrator (down_at Round1_B (Exception ''connection refused''))
              ''Should we use microservices?''"
  have both: "?both = (fst ?both, snd ?both)" and b: "?b = (fst ?b, snd ?b)" by simp_all
  have h1: "call_outcome (snd ?both ! 0)
              = Inl (Exception ''Model failed after 3 attempts: member A unreachable'')"
    and h2: "call_outcome (snd ?both ! 1)
              = Inl (Exception ''Model failed after 3 attempts: member B unreachable'')"
    by (simp_all add: round1_down_run)
  have h3: "succeeded (snd ?b ! 0)"
    and h4: "call_outcome (snd ?b ! 1) = Inl (Exception ''Model failed after 3 attempts: connection refused'')"
    by (simp_all add: down_round1_b_run succeeded_def)
  from round1_member_a_error_first [OF both] h1
  have c1: "fst ?both = Inl (Exception (''Debate execution failed: '' @
               str_exc (Exception ''Model failed after 3 attempts: member A unreachable'')))"
    by blast
  from round1_member_a_error_first [OF b] h3 h4
  have c2: "fst ?b = Inl (Exception (''Debate execution failed: '' @
               str_exc (Exception ''Model failed after 3 attempts: connection refused'')))"
    by blast
  from h1 h2 h3 h4 c1 c2 show ?thesis by simp
qed

section \<open>Construction of the orchestrator\<close>

lemma from_env_api_key:
  "from_env py_float py_int environ = Inr c \<Longrightarrow> \<not> truthy (environ ''AZURE_AI_API_KEY'')
     \<Longrightarrow> api_key c = None"
  by (auto simp: from_env_def getenv_def Let_def split: if_splits sum.splits)

lemma api_key_header [simp]:
  "map_of (headers (stage_request self st um)) ''api-key'' = Some (api_key (config self))"
  by (cases st) (simp_all add: build_request_def)

text \<open>
  C8. Constructing the orchestrator from a configuration without a key raises the
  \<open>ValueError\<close> about the key; constructing it from an environment without the key raises
  too; and an orchestrator that was constructed has a key, which every request of its
  debates carries in the \<open>api-key\<close> header.
\<close>

theorem orchestrator_requires_api_key:
  "(\<not> truthy (api_key c)
      \<longrightarrow> fst (DebateOrchestrator_init py_float py_int environ (Some c) inst) =
            Inl (ValueError (''AZURE_AI_API_KEY is required. '' @
                   ''Please add your Azure AI Foundry API key to the .env file.'')))
   \<and> (\<not> truthy (environ ''AZURE_AI_API_KEY'')
      \<longrightarrow> (\<exists>e. fst (DebateOrchestrator_init py_float py_int environ None None) = Inl e))
   \<and> (\<forall>orch. fst (DebateOrchestrator_init py_float py_int environ config_arg inst) = Inr orch
      \<longrightarrow> truthy (api_key (config orch))
          \<and> (\<forall>call\<in>set (snd (conduct_debate orch endpoint q)).
               \<forall>r\<in>set (posted (call_events call)).
                 \<exists>k. k \<noteq> [] \<and> map_of (headers r) ''api-key'' = Some (Some k)))"
proof (intro conjI impI allI)
  assume "\<not> truthy (api_key c)"
  then show "fst (DebateOrchestrator_init py_float py_int environ (Some c) inst) =
            Inl (ValueError (''AZURE_AI_API_KEY is required. '' @
                   ''Please add your Azure AI Foundry API key to the .env file.''))"
    by (simp add: DebateOrchestrator_init_def)
next
  assume nokey: "\<not> truthy (environ ''AZURE_AI_API_KEY'')"
  show "\<exists>e. fst (DebateOrchestrator_init py_float py_int environ None None) = Inl e"
  proof (cases "from_env py_float py_int environ")
    case (Inl e)
    then show ?thesis by (simp add: DebateOrchestrator_init_def get_config_def)
  next
    case (Inr c)
    with nokey have "api_key c = None" using from_env_api_key by blast
    with Inr show ?thesis
      by (cases "validate c") (simp_all add: DebateOrchestrator_init_def get_config_def)
  qed
next
  fix orch
  assume ok: "fst (DebateOrchestrator_init py_float py_int environ config_arg inst) = Inr orch"
  then show key: "truthy (api_key (config orch))"
    by (auto simp: DebateOrchestrator_init_def split: prod.splits sum.splits if_splits)
  then obtain k where k: "api_key (config orch) = Some k" "k \<noteq> []"
    by (cases "api_key (config orch)") auto
  show "\<forall>call\<in>set (snd (conduct_debate orch endpoint q)).
               \<forall>r\<in>set (posted (call_events call)).
                 \<exists>k. k \<noteq> [] \<and> map_of (headers r) ''api-key'' = Some (Some k)"
  proof (intro ballI)
    fix call r
    assume c: "call \<in> set (snd (conduct_debate orch endpoint q))"
      and r: "r \<in> set (posted (call_events call))"
    obtain res calls where run: "conduct_debate orch endpoint q = (res, calls)"
      by (meson surj_pair)
    with c conduct_debate_calls_made [OF run, of call]
    obtain um where "made orch (call_stage call) um call" by auto
    with r have "r = stage_request orch (call_stage call) um" by (auto simp: made_def)
    with k show "\<exists>k. k \<noteq> [] \<and> map_of (headers r) ''api-key'' = Some (Some k)" by simp
  qed
qed

text \<open>The example configuration without its key, an environment that sets the endpoint
  only, and the example configuration as it is.\<close>

theorem orchestrator_requires_api_key_witness:
  "\<not> truthy (api_key (example_config \<lparr> api_key := None \<rparr>))
   \<and> fst (DebateOrchestrator_init (\<lambda>s. Inr s) (\<lambda>s. Inr 60) Map.empty
            (Some (example_config \<lparr> api_key := None \<rparr>)) None)
       = Inl (ValueError (''AZURE_AI_API_KEY is required. '' @
                ''Please add your Azure AI Foundry API key to the .env file.''))
   \<and> \<not> truthy ([''AZURE_AI_PROJECT_ENDPOINT'' \<mapsto> ''https://council.example''] ''AZURE_AI_API_KEY'')
   \<and> fst (DebateOrchestrator_init (\<lambda>s. Inr s) (\<lambda>s. Inr 60)
            [''AZURE_AI_PROJECT_ENDPOINT'' \<mapsto> ''https://council.example''] None None)
       = Inl (ValueError (''AZURE_AI_API_KEY is required. '' @
                ''Please add your Azure AI Foundry API key to the .env file.''))
   \<and> fst (DebateOrchestrator_init (\<lambda>s. Inr s) (\<lambda>s. Inr 60) Map.empty (Some example_config) None)
       = Inr example_orchestrator
   \<and> truthy (api_key (config example_orchestrator))
   \<and> length (snd (conduct_debate example_orchestrator scripted_endpoint
                    ''Should we use microservices?'')) = 5
   \<and> \<not> (\<exists>call\<in>set (snd (conduct_debate example_orchestrator scripted_endpoint
                          ''Should we use microservices?'')).
        posted (call_events call) = []
        \<or> (\<exists>r\<in>set (posted (call_events call)).
              \<not> (\<exists>k. k \<noteq> [] \<and> map_of (headers r) ''api-key'' = Some (Some k))))"
proof -
  let ?env = "[''AZURE_AI_PROJECT_ENDPOINT'' \<mapsto> ''https://council.example'']"
  have h1: "\<not> truthy (api_key (example_config \<lparr> api_key := None \<rparr>))" by simp
  have h2: "\<not> truthy (?env ''AZURE_AI_API_KEY'')" by simp
  have h3: "fst (DebateOrchestrator_init (\<lambda>s. Inr s) (\<lambda>s. Inr 60) Map.empty
                   (Some example_config) None) = Inr example_orchestrator"
    by (simp add: DebateOrchestrator_init_def example_config_def example_orchestrator_def)
  have e2: "fst (DebateOrchestrator_init (\<lambda>s. Inr s) (\<lambda>s. Inr 60) ?env None None)
       = Inl (ValueError (''AZURE_AI_API_KEY is required. '' @
                ''Please add your Azure AI Foundry API key to the .env file.''))"
    by (simp add: DebateOrchestrator_init_def get_config_def from_env_def getenv_def
          getenv_default_def validate_def Let_def)
  have ne: "length (snd (conduct_debate example_orchestrator scripted_endpoint
                   ''Should we use microservices?'')) = 5"
    "\<not> (\<exists>call\<in>set (snd (conduct_debate example_orchestrator scripted_endpoint
                          ''Should we use microservices?'')). posted (call_events call) = [])"
    by (simp_all add: scripted_run)
  note a = orchestrator_requires_api_key
      [where c = "example_config \<lparr> api_key := None \<rparr>" and py_float = "\<lambda>s. Inr s"
         and py_int = "\<lambda>s. Inr 60" and environ = Map.empty and inst = None
         and config_arg = "Some example_config" and endpoint = scripted_endpoint
         and q = "''Should we use microservices?''"]
  from a h1 have c1: "fst (DebateOrchestrator_init (\<lambda>s. Inr s) (\<lambda>s. Inr 60) Map.empty
            (Some (example_config \<lparr> api_key := None \<rparr>)) None)
       = Inl (ValueError (''AZURE_AI_API_KEY is required. '' @
                ''Please add your Azure AI Foundry API key to the .env file.''))"
    by blast
  from a h3 have c3: "truthy (api_key (config example_orchestrator))
     \<and> \<not> (\<exists>call\<in>set (snd (conduct_debate example_orchestrator scripted_endpoint
                          ''Should we use microservices?'')).
        \<exists>r\<in>set (posted (call_events call)).
              \<not> (\<exists>k. k \<noteq> [] \<and> map_of (headers r) ''api-key'' = Some (Some k)))"
    by blast
  from orchestrator_requires_api_key
      [where py_float = "\<lambda>s. Inr s" and py_int = "\<lambda>s. Inr 60" and environ = ?env] h2
  have c2: "\<exists>e. fst (DebateOrchestrator_init (\<lambda>s. Inr s) (\<lambda>s. Inr 60) ?env None None) = Inl e"
    by blast
  from h1 c1 h2 c2 e2 h3 ne c3 show ?thesis by blast
qed

section \<open>The output formatter is total\<close>

text \<open>
  C7. For a dictionary holding the five responses and a given configuration, the
  formatter returns a text and leaves the configuration singleton alone. The text has the
  Round 1 header, then the Round 2 header, then the Round 3 header; each member's round-1
  text stands under its display name in the Round 1 section, the critique and the response
  under their headers in the Round 2 section, and the chair's text in the Round 3 section.
  The text depends on the dictionary and the configuration only.
\<close>

theorem format_debate_output_total_and_ordered:
  assumes r1a: "responses ''round1_member_a'' = Some r1a"
    and r1b: "responses ''round1_member_b'' = Some r1b"
    and r2a: "responses ''round2_member_a'' = Some r2a"
    and r2b: "responses ''round2_member_b'' = Some r2b"
    and r3: "responses ''round3_chair'' = Some r3"
  shows "(\<exists>pre s1 s2 s3.
            format_debate_output py_float py_int environ responses (Some cfg) inst =
              (Inr (pre @ ''##  Round 1: Independent Analysis'' @ s1 @
                    ''##  Round 2: Chain-of-Debate'' @ s2 @
                    ''##  Round 3: Chair's Final Verdict'' @ s3), inst)
          \<and> sublist (''###  '' @ display_name (member_a cfg) @ ''\<newline>'' @ r1a) s1
          \<and> sublist (''###  '' @ display_name (member_b cfg) @ ''\<newline>'' @ r1b) s1
          \<and> sublist (''###  Member A's Critique\<newline>'' @ r2a) s2
          \<and> sublist (''###  Member B's Response\<newline>'' @ r2b) s2
          \<and> sublist r3 s3)
       \<and> fst (format_debate_output py_float py_int environ responses (Some cfg) inst) =
           fst (format_debate_output py_float' py_int' environ' responses (Some cfg) inst')"
proof -
  let ?s1 = "''\<newline>\<newline>'' @ (''###  '' @ display_name (member_a cfg) @ ''\<newline>'' @ r1a) @
             ''\<newline>\<newline>---\<newline>\<newline>'' @
             (''###  '' @ display_name (member_b cfg) @ ''\<newline>'' @ r1b) @
             ''\<newline>\<newline>---\<newline>\<newline>''"
  let ?s2 = "''\<newline>\<newline>'' @ (''###  Member A's Critique\<newline>'' @ r2a) @
             ''\<newline>\<newline>---\<newline>\<newline>'' @
             (''###  Member B's Response\<newline>'' @ r2b) @
             ''\<newline>\<newline>---\<newline>\<newline>''"
  let ?s3 = "'' ('' @ deployment_name (chair cfg) @ '')\<newline>\<newline>'' @ r3 @ ''\<newline>''"
  have out: "format_debate_output py_float py_int environ responses (Some cfg) inst =
              (Inr (''#  LLM Council Debate\<newline>\<newline>'' @ ''##  Round 1: Independent Analysis'' @ ?s1 @
                    ''##  Round 2: Chain-of-Debate'' @ ?s2 @
                    ''##  Round 3: Chair's Final Verdict'' @ ?s3), inst)"
    for py_float :: "string \<Rightarrow> py_exception + 'a" and py_int environ inst
    by (simp add: format_debate_output_def subscript_def r1a r1b r2a r2b r3)
  have a: "sublist (''###  '' @ display_name (member_a cfg) @ ''\<newline>'' @ r1a) ?s1"
    by (rule sublist_mid)
  have b: "sublist (''###  '' @ display_name (member_b cfg) @ ''\<newline>'' @ r1b) ?s1"
    using sublist_mid [of "''###  '' @ display_name (member_b cfg) @ ''\<newline>'' @ r1b"
        "''\<newline>\<newline>'' @ (''###  '' @ display_name (member_a cfg) @ ''\<newline>'' @ r1a) @
         ''\<newline>\<newline>---\<newline>\<newline>''" "''\<newline>\<newline>---\<newline>\<newline>''"]
    by (simp only: append_assoc)
  have c: "sublist (''###  Member A's Critique\<newline>'' @ r2a) ?s2"
    by (rule sublist_mid)
  have d: "sublist (''###  Member B's Response\<newline>'' @ r2b) ?s2"
    using sublist_mid [of "''###  Member B's Response\<newline>'' @ r2b"
        "''\<newline>\<newline>'' @ (''###  Member A's Critique\<newline>'' @ r2a) @
         ''\<newline>\<newline>---\<newline>\<newline>''" "''\<newline>\<newline>---\<newline>\<newline>''"]
    by (simp only: append_assoc)
  have e: "sublist r3 ?s3"
    using sublist_mid [of r3 "'' ('' @ deployment_name (chair cfg) @ '')\<newline>\<newline>''" "''\<newline>''"]
    by (simp only: append_assoc)
  have same: "fst (format_debate_output py_float py_int environ responses (Some cfg) inst) =
           fst (format_debate_output py_float' py_int' environ' responses (Some cfg) inst')"
    by (simp only: out fst_conv)
  from out [of py_float py_int environ inst] a b c d e same show ?thesis by blast
qed

text \<open>The dictionary of the end-to-end scenario under the example configuration.\<close>

theorem format_debate_output_total_and_ordered_witness:
  "scripted_responses ''round1_member_a'' = Some ''A1''
   \<and> scripted_responses ''round1_member_b'' = Some ''B1''
   \<and> scripted_responses ''round2_member_a'' = Some ''A2''
   \<and> scripted_responses ''round2_member_b'' = Some ''B2''
   \<and> scripted_responses ''round3_chair'' = Some ''C1''
   \<and> (\<exists>pre s1 s2 s3.
        format_debate_output (\<lambda>s. Inr s) (\<lambda>s. Inr 60) Map.empty scripted_responses
            (Some example_config) None =
          (Inr (pre @ ''##  Round 1: Independent Analysis'' @ s1 @
                ''##  Round 2: Chain-of-Debate'' @ s2 @
                ''##  Round 3: Chair's Final Verdict'' @ s3), None)
        \<and> sublist (''###  Council Member A (Analytical - GPT-4.1)\<newline>A1'') s1
        \<and> sublist (''###  Council Member B (Critical - DeepSeek-V3.1)\<newline>B1'') s1
        \<and> sublist (''###  Member A's Critique\<newline>A2'') s2
        \<and> sublist (''###  Member B's Response\<newline>B2'') s2
        \<and> sublist ''C1'' s3)"
proof -
  have h: "scripted_responses ''round1_member_a'' = Some ''A1''"
          "scripted_responses ''round1_member_b'' = Some ''B1''"
          "scripted_responses ''round2_member_a'' = Some ''A2''"
          "scripted_responses ''round2_member_b'' = Some ''B2''"
          "scripted_responses ''round3_chair'' = Some ''C1''"
    by (simp_all add: scripted_responses_def)
  have n: "display_name (member_a example_config) = ''Council Member A (Analytical - GPT-4.1)''"
          "display_name (member_b example_config) = ''Council Member B (Critical - DeepSeek-V3.1)''"
    by (simp_all add: example_config_def)
  from format_debate_output_total_and_ordered
         [OF h, of "\<lambda>s. Inr s" "\<lambda>s. Inr 60" Map.empty example_config None]
  have "\<exists>pre s1 s2 s3.
        format_debate_output (\<lambda>s. Inr s) (\<lambda>s. Inr 60) Map.empty scripted_responses
            (Some example_config) None =
          (Inr (pre @ ''##  Round 1: Independent Analysis'' @ s1 @
                ''##  Round 2: Chain-of-Debate'' @ s2 @
                ''##  Round 3: Chair's Final Verdict'' @ s3), None)
        \<and> sublist (''###  Council Member A (Analytical - GPT-4.1)\<newline>A1'') s1
        \<and> sublist (''###  Council Member B (Critical - DeepSeek-V3.1)\<newline>B1'') s1
        \<and> sublist (''###  Member A's Critique\<newline>A2'') s2
        \<and> sublist (''###  Member B's Response\<newline>B2'') s2
        \<and> sublist ''C1'' s3"
    unfolding n by simp
  with h show ?thesis by blast
qed

section \<open>Prompt builder properties\<close>

text \<open>
  C2. For every query and all prior-round texts, the round-2 message for member A contains
  member B's round-1 text as a contiguous substring; the round-2 message for member B
  contains member A's round-1 text and member A's round-2 critique; the chair's message
  contains all four prior texts.
\<close>

theorem round_prompts_embed_prior_texts:
  "sublist r1b (get_round2_prompt_for_member_a q r1b)
   \<and> sublist r1a (get_round2_prompt_for_member_b q r1a r2a)
   \<and> sublist r2a (get_round2_prompt_for_member_b q r1a r2a)
   \<and> sublist r1a (get_chair_synthesis_prompt q r1a r1b r2a r2b)
   \<and> sublist r1b (get_chair_synthesis_prompt q r1a r1b r2a r2b)
   \<and> sublist r2a (get_chair_synthesis_prompt q r1a r1b r2a r2b)
   \<and> sublist r2b (get_chair_synthesis_prompt q r1a r1b r2a r2b)"
proof -
  have pre: "\<And>m p s. sublist m (p @ m @ s)" by (rule sublist_mid)
  have a: "sublist r1b (get_round2_prompt_for_member_a q r1b)"
    unfolding get_round2_prompt_for_member_a_def
    using pre [of r1b "''Original Query: '' @ q @ ''\<newline>\<newline>Council Member B's Analysis:\<newline>''"]
    by (simp only: append_assoc)
  have b1: "sublist r1a (get_round2_prompt_for_member_b q r1a r2a)"
    unfolding get_round2_prompt_for_member_b_def
    using pre [of r1a "''Original Query: '' @ q @ ''\<newline>\<newline>Council Member A's Initial Analysis:\<newline>''"]
    by (simp only: append_assoc)
  have b2: "sublist r2a (get_round2_prompt_for_member_b q r1a r2a)"
    unfolding get_round2_prompt_for_member_b_def
    using pre [of r2a "''Original Query: '' @ q @ ''\<newline>\<newline>Council Member A's Initial Analysis:\<newline>'' @ r1a @
          ''\<newline>\<newline>Council Member A's Critique of Your Analysis:\<newline>''"]
    by (simp only: append_assoc)
  have c1: "sublist r1a (get_chair_synthesis_prompt q r1a r1b r2a r2b)"
    unfolding get_chair_synthesis_prompt_def
    using pre [of r1a "''Original Query: '' @ q @
          ''\<newline>\<newline>=== FULL DEBATE TRANSCRIPT ===\<newline>\<newline>ROUND 1 - Council Member A (Analytical):\<newline>''"]
    by (simp only: append_assoc)
  have c2: "sublist r1b (get_chair_synthesis_prompt q r1a r1b r2a r2b)"
    unfolding get_chair_synthesis_prompt_def
    using pre [of r1b "''Original Query: '' @ q @
          ''\<newline>\<newline>=== FULL DEBATE TRANSCRIPT ===\<newline>\<newline>ROUND 1 - Council Member A (Analytical):\<newline>'' @ r1a @
          ''\<newline>\<newline>ROUND 1 - Council Member B (Critical):\<newline>''"]
    by (simp only: append_assoc)
  have c3: "sublist r2a (get_chair_synthesis_prompt q r1a r1b r2a r2b)"
    unfolding get_chair_synthesis_prompt_def
    using pre [of r2a "''Original Query: '' @ q @
          ''\<newline>\<newline>=== FULL DEBATE TRANSCRIPT ===\<newline>\<newline>ROUND 1 - Council Member A (Analytical):\<newline>'' @ r1a @
          ''\<newline>\<newline>ROUND 1 - Council Member B (Critical):\<newline>'' @ r1b @
          ''\<newline>\<newline>ROUND 2 - Member A's Critique:\<newline>''"]
    by (simp only: append_assoc)
  have c4: "sublist r2b (get_chair_synthesis_prompt q r1a r1b r2a r2b)"
    unfolding get_chair_synthesis_prompt_def
    using pre [of r2b "''Original Query: '' @ q @
          ''\<newline>\<newline>=== FULL DEBATE TRANSCRIPT ===\<newline>\<newline>ROUND 1 - Council Member A (Analytical):\<newline>'' @ r1a @
          ''\<newline>\<newline>ROUND 1 - Council Member B (Critical):\<newline>'' @ r1b @
          ''\<newline>\<newline>ROUND 2 - Member A's Critique:\<newline>'' @ r2a @
          ''\<newline>\<newline>ROUND 2 - Member B's Response:\<newline>''"]
    by (simp only: append_assoc)
  from a b1 b2 c1 c2 c3 c4 show ?thesis by blast
qed

end
